theory Spec2Isabelle
  imports Main "HOL-Library.Word"
begin

unbundle bit_operations_syntax

section \<open>POSIX ACLs of pramfs: the model of acl.c\<close>

text \<open>
  The development follows \<^verbatim>\<open>pramfs-1.5.1-3.12/acl.c\<close>: the codec
  (\<^verbatim>\<open>pram_acl_load\<close>, \<^verbatim>\<open>pram_acl_save\<close>), the store adapter
  (\<^verbatim>\<open>pram_get_acl\<close>, \<^verbatim>\<open>pram_set_acl\<close>) and the attribute handler
  \<^verbatim>\<open>pram_xattr_set_acl\<close>. Pointers that may be \<^verbatim>\<open>NULL\<close> or carry an
  errno are values of the type \<open>ptr\<close>; a buffer together with its size is a byte list;
  the inode, its ACL cache and its attribute store are one record that every operation
  returns updated.
\<close>

subsection \<open>Pointers, error numbers, constants of the kernel headers\<close>

type_synonym byte = "8 word"

datatype 'a ptr = NULL | Ptr 'a | Err int

text \<open>
  \<^verbatim>\<open>ERR_PTR(e)\<close> casts the number to a pointer, so \<^verbatim>\<open>ERR_PTR(0)\<close> is the null
  pointer. \<^verbatim>\<open>IS_ERR\<close> holds for the last \<^verbatim>\<open>MAX_ERRNO = 4095\<close> addresses.
\<close>

definition ERR_PTR :: "int \<Rightarrow> 'a ptr" where
  "ERR_PTR e = (if e = 0 then NULL else Err e)"

fun IS_ERR :: "'a ptr \<Rightarrow> bool" where
  "IS_ERR (Err e) = (- 4095 \<le> e \<and> e < 0)"
| "IS_ERR _ = False"

fun PTR_ERR :: "'a ptr \<Rightarrow> int" where
  "PTR_ERR (Err e) = e"
| "PTR_ERR _ = 0"

abbreviation (input) EPERM :: int where "EPERM \<equiv> 1"
abbreviation (input) ENOMEM :: int where "ENOMEM \<equiv> 12"
abbreviation (input) EACCES :: int where "EACCES \<equiv> 13"
abbreviation (input) EINVAL :: int where "EINVAL \<equiv> 22"
abbreviation (input) ENOSYS :: int where "ENOSYS \<equiv> 38"
abbreviation (input) ENODATA :: int where "ENODATA \<equiv> 61"
abbreviation (input) EOPNOTSUPP :: int where "EOPNOTSUPP \<equiv> 95"

text \<open>The tags of \<^verbatim>\<open>linux/posix_acl.h\<close> (0x01, 0x02, 0x04, 0x08, 0x10, 0x20).\<close>

abbreviation (input) ACL_USER_OBJ :: "16 word" where "ACL_USER_OBJ \<equiv> 1"
abbreviation (input) ACL_USER :: "16 word" where "ACL_USER \<equiv> 2"
abbreviation (input) ACL_GROUP_OBJ :: "16 word" where "ACL_GROUP_OBJ \<equiv> 4"
abbreviation (input) ACL_GROUP :: "16 word" where "ACL_GROUP \<equiv> 8"
abbreviation (input) ACL_MASK :: "16 word" where "ACL_MASK \<equiv> 16"
abbreviation (input) ACL_OTHER :: "16 word" where "ACL_OTHER \<equiv> 32"

text \<open>\<^verbatim>\<open>ACL_TYPE_ACCESS = 0x8000\<close>, \<^verbatim>\<open>ACL_TYPE_DEFAULT = 0x4000\<close>.\<close>

abbreviation (input) ACL_TYPE_ACCESS :: int where "ACL_TYPE_ACCESS \<equiv> 32768"
abbreviation (input) ACL_TYPE_DEFAULT :: int where "ACL_TYPE_DEFAULT \<equiv> 16384"

text \<open>
  \<^verbatim>\<open>struct posix_acl_entry\<close>: \<open>e_id\<close> is the union of \<^verbatim>\<open>e_uid\<close> and
  \<^verbatim>\<open>e_gid\<close>; in \<^verbatim>\<open>init_user_ns\<close> the conversions \<^verbatim>\<open>make_kuid\<close>,
  \<^verbatim>\<open>from_kuid\<close> and their group twins are the identity. \<^verbatim>\<open>struct posix_acl\<close>
  is the list of its entries, \<^verbatim>\<open>a_count\<close> its length.
\<close>

record posix_acl_entry =
  e_tag :: "16 word"
  e_perm :: "16 word"
  e_id :: "32 word"

type_synonym posix_acl = "posix_acl_entry list"

subsection \<open>What acl.c takes from outside the sources\<close>

text \<open>
  Modelled from the spec: \<^verbatim>\<open>acl.h\<close> is not among the sources. The wire format of the
  spec fixes the sizes of its three structures: a 4-byte header, a short record of 4 bytes
  (tag, permission bits) and a long record of 8 bytes (tag, permission bits, identifier).
\<close>

abbreviation (input) sizeof_pram_acl_header :: nat where "sizeof_pram_acl_header \<equiv> 4"
abbreviation (input) sizeof_pram_acl_entry_short :: nat where "sizeof_pram_acl_entry_short \<equiv> 4"
abbreviation (input) sizeof_pram_acl_entry :: nat where "sizeof_pram_acl_entry \<equiv> 8"

text \<open>
  The rest of \<^verbatim>\<open>acl.h\<close> and the kernel services are parameters of the model:
  the version constant and the two inline helpers that relate an entry count to a buffer
  size; the two allocators, each of which may fail for a request (\<open>acl_alloc_ok\<close>,
  \<open>kmalloc_ok\<close>) and hands out memory with arbitrary content; the kernel's ACL helpers;
  the answer of the capability check and the clock.
\<close>

record env =
  PRAM_ACL_VERSION :: "32 word"
  pram_acl_count :: "nat \<Rightarrow> int"
  pram_acl_size :: "nat \<Rightarrow> nat"
  acl_alloc_ok :: "nat \<Rightarrow> bool"
  kmalloc_ok :: "nat \<Rightarrow> bool"
  junk_entry :: "nat \<Rightarrow> posix_acl_entry"
  junk_byte :: "nat \<Rightarrow> byte"
  posix_acl_equiv_mode :: "posix_acl \<Rightarrow> 16 word \<Rightarrow> int \<times> 16 word"
  posix_acl_from_xattr :: "byte list \<Rightarrow> posix_acl ptr"
  posix_acl_valid :: "posix_acl \<Rightarrow> int"
  inode_owner_or_capable :: bool
  CURRENT_TIME_SEC :: nat

text \<open>
  \<^verbatim>\<open>posix_acl_alloc(count, GFP_KERNEL)\<close> and \<^verbatim>\<open>kmalloc(n, GFP_KERNEL)\<close>:
  \<open>None\<close> is the null pointer of a failed allocation; otherwise the block has the
  requested length and uninitialised content.
\<close>

definition posix_acl_alloc :: "env \<Rightarrow> nat \<Rightarrow> posix_acl option" where
  "posix_acl_alloc k count =
     (if acl_alloc_ok k count then Some (map (junk_entry k) [0..<count]) else None)"

definition kmalloc :: "env \<Rightarrow> nat \<Rightarrow> byte list option" where
  "kmalloc k n = (if kmalloc_ok k n then Some (map (junk_byte k) [0..<n]) else None)"

subsection \<open>Byte order\<close>

text \<open>
  A field read through \<^verbatim>\<open>be16_to_cpu\<close> or \<^verbatim>\<open>be32_to_cpu\<close> has its first byte
  in memory as the most significant one, whatever the host; a field written through
  \<^verbatim>\<open>cpu_to_le16\<close> has its least significant byte first in memory.
\<close>

definition get_be16 :: "byte list \<Rightarrow> 16 word" where
  "get_be16 bs = push_bit 8 (ucast (bs ! 0)) OR ucast (bs ! 1)"

definition get_be32 :: "byte list \<Rightarrow> 32 word" where
  "get_be32 bs = push_bit 24 (ucast (bs ! 0)) OR push_bit 16 (ucast (bs ! 1))
                 OR push_bit 8 (ucast (bs ! 2)) OR ucast (bs ! 3)"

definition put_le16 :: "16 word \<Rightarrow> byte list" where
  "put_le16 x = [ucast x, ucast (drop_bit 8 x)]"

definition put_be32 :: "32 word \<Rightarrow> byte list" where
  "put_be32 x = [ucast (drop_bit 24 x), ucast (drop_bit 16 x), ucast (drop_bit 8 x), ucast x]"

subsection \<open>The codec\<close>

text \<open>
  The loop of \<^verbatim>\<open>pram_acl_load\<close>. The first argument is the number of iterations
  left (\<open>count - n\<close>), \<open>n\<close> the index of the entry being filled, \<open>value\<close> the bytes
  from the cursor to \<^verbatim>\<open>end\<close>, so that \<^verbatim>\<open>value + k > end\<close> reads
  \<open>length value < k\<close>. \<open>None\<close> is \<^verbatim>\<open>goto fail\<close>; after the last iteration the
  entries and the unread bytes are returned. The switch tests the tag that has just been
  stored into the entry. \<open>acl\<close> is the object that \<^verbatim>\<open>posix_acl_alloc\<close> returned,
  with \<open>count\<close> entries, so \<open>n\<close> stays inside it.
\<close>

fun load_entries ::
  "nat \<Rightarrow> nat \<Rightarrow> byte list \<Rightarrow> posix_acl \<Rightarrow> (posix_acl \<times> byte list) option" where
  "load_entries 0 n value acl = Some (acl, value)"
| "load_entries (Suc left) n value acl =
     (if length value < sizeof_pram_acl_entry_short then None
      else
        let tag = get_be16 value;
            acl1 = acl[n := (acl ! n)\<lparr>e_tag := tag, e_perm := get_be16 (drop 2 value)\<rparr>]
        in
          if tag = ACL_USER_OBJ \<or> tag = ACL_GROUP_OBJ \<or> tag = ACL_MASK \<or> tag = ACL_OTHER
          then load_entries left (Suc n) (drop sizeof_pram_acl_entry_short value) acl1
          else if tag = ACL_USER \<or> tag = ACL_GROUP
          then
            (if length value < sizeof_pram_acl_entry then None
             else load_entries left (Suc n) (drop sizeof_pram_acl_entry value)
                    (acl1[n := (acl1 ! n)\<lparr>e_id := get_be32 (drop 4 value)\<rparr>]))
          else None)"

text \<open>
  \<^verbatim>\<open>pram_acl_load(value, size)\<close>: \<open>None\<close> is the null \<^verbatim>\<open>value\<close>; a buffer is
  the list of its \<^verbatim>\<open>size\<close> bytes.
\<close>

definition pram_acl_load :: "env \<Rightarrow> byte list option \<Rightarrow> posix_acl ptr" where
  "pram_acl_load k value =
     (case value of
        None \<Rightarrow> NULL
      | Some buf \<Rightarrow>
          if length buf < sizeof_pram_acl_header then ERR_PTR (- EINVAL)
          else if take sizeof_pram_acl_header buf \<noteq> put_be32 (PRAM_ACL_VERSION k)
          then ERR_PTR (- EINVAL)
          else
            let count = pram_acl_count k (length buf) in
              if count < 0 then ERR_PTR (- EINVAL)
              else if count = 0 then NULL
              else
                (case posix_acl_alloc k (nat count) of
                   None \<Rightarrow> ERR_PTR (- ENOMEM)
                 | Some acl \<Rightarrow>
                     (case load_entries (nat count) 0 (drop sizeof_pram_acl_header buf) acl of
                        None \<Rightarrow> ERR_PTR (- EINVAL)
                      | Some (acl', rest) \<Rightarrow>
                          if rest \<noteq> [] then ERR_PTR (- EINVAL) else Ptr acl')))"

text \<open>
  The loop of \<^verbatim>\<open>pram_acl_save\<close>: the bytes written behind the header, \<open>None\<close> for
  \<^verbatim>\<open>goto fail\<close>.
\<close>

fun save_entries :: "posix_acl \<Rightarrow> byte list option" where
  "save_entries [] = Some []"
| "save_entries (acl_e # rest) =
     (let entry = put_le16 (e_tag acl_e) @ put_le16 (e_perm acl_e) in
        if e_tag acl_e = ACL_USER \<or> e_tag acl_e = ACL_GROUP
        then map_option (\<lambda>bs. entry @ put_be32 (e_id acl_e) @ bs) (save_entries rest)
        else if e_tag acl_e = ACL_USER_OBJ \<or> e_tag acl_e = ACL_GROUP_OBJ
                \<or> e_tag acl_e = ACL_MASK \<or> e_tag acl_e = ACL_OTHER
        then map_option (\<lambda>bs. entry @ bs) (save_entries rest)
        else None)"

text \<open>Writing \<open>bs\<close> at the start of an allocated block leaves the rest as it was.\<close>

definition overlay :: "byte list \<Rightarrow> byte list \<Rightarrow> byte list" where
  "overlay bs blk = bs @ drop (length bs) blk"

text \<open>
  \<^verbatim>\<open>pram_acl_save(acl, &size)\<close> returns the block and the size it stored through
  the second argument. The block has room for a header and \<^verbatim>\<open>a_count\<close> long records.
\<close>

definition pram_acl_save :: "env \<Rightarrow> posix_acl \<Rightarrow> byte list ptr \<times> nat" where
  "pram_acl_save k acl =
     (let size = pram_acl_size k (length acl) in
        case kmalloc k (sizeof_pram_acl_header + length acl * sizeof_pram_acl_entry) of
          None \<Rightarrow> (ERR_PTR (- ENOMEM), size)
        | Some ext_acl \<Rightarrow>
            (case save_entries acl of
               None \<Rightarrow> (ERR_PTR (- EINVAL), size)
             | Some bs \<Rightarrow> (Ptr (overlay (put_be32 (PRAM_ACL_VERSION k) @ bs) ext_acl), size)))"

subsection \<open>The inode, its ACL cache and its attribute store\<close>

text \<open>
  \<^verbatim>\<open>S_ISLNK\<close> and \<^verbatim>\<open>S_ISDIR\<close> of \<^verbatim>\<open>linux/stat.h\<close>:
  \<^verbatim>\<open>S_IFMT = 0170000\<close>, \<^verbatim>\<open>S_IFLNK = 0120000\<close>, \<^verbatim>\<open>S_IFDIR = 0040000\<close>;
  \<^verbatim>\<open>umode_t\<close> is an unsigned short.
\<close>

definition S_ISLNK :: "16 word \<Rightarrow> bool" where
  "S_ISLNK m = (m AND 61440 = 40960)"

definition S_ISDIR :: "16 word \<Rightarrow> bool" where
  "S_ISDIR m = (m AND 61440 = 16384)"

datatype name_index = PRAM_XATTR_INDEX_POSIX_ACL_ACCESS | PRAM_XATTR_INDEX_POSIX_ACL_DEFAULT

text \<open>What the attribute store holds under a key: nothing, a value, or a fault it reports.\<close>

datatype xattr_reply = NotFound | Bytes "byte list" | Error int

text \<open>The calls that leave \<^verbatim>\<open>acl.c\<close>, in the order they are made.\<close>

datatype event =
    MARK_INODE_DIRTY
  | XATTR_GET name_index
  | XATTR_SET name_index "byte list option"
  | SET_CACHED_ACL int "posix_acl ptr"

text \<open>
  The inode with what the operations reach through it: \<open>opt_POSIX_ACL\<close> is
  \<^verbatim>\<open>test_opt(inode->i_sb, POSIX_ACL)\<close>, \<open>i_acl\<close> and \<open>i_default_acl\<close> are the two
  cache slots of the kernel, \<open>i_xattr\<close> the content of the attribute store,
  \<open>xattr_set_error\<close> the answer the store gives to a write (0 when it accepts it),
  \<open>trace\<close> the calls made so far.
\<close>

record inode =
  i_mode :: "16 word"
  i_ctime :: nat
  i_dirty :: bool
  opt_POSIX_ACL :: bool
  i_acl :: "posix_acl ptr"
  i_default_acl :: "posix_acl ptr"
  i_xattr :: "name_index \<Rightarrow> xattr_reply"
  xattr_set_error :: int
  trace :: "event list"

definition mark_inode_dirty :: "inode \<Rightarrow> inode" where
  "mark_inode_dirty inode = inode\<lparr>i_dirty := True, trace := trace inode @ [MARK_INODE_DIRTY]\<rparr>"

text \<open>
  The cache helpers of \<^verbatim>\<open>linux/posix_acl.h\<close>. \<^verbatim>\<open>ACL_NOT_CACHED\<close> is the pointer
  \<^verbatim>\<open>(void *)(-1)\<close>; for a type that is neither access nor default the lookup
  returns \<^verbatim>\<open>ERR_PTR(-EINVAL)\<close> and the update does nothing.
\<close>

abbreviation (input) ACL_NOT_CACHED :: "posix_acl ptr" where "ACL_NOT_CACHED \<equiv> Err (- 1)"

definition get_cached_acl :: "inode \<Rightarrow> int \<Rightarrow> posix_acl ptr" where
  "get_cached_acl inode type =
     (if type = ACL_TYPE_ACCESS then i_acl inode
      else if type = ACL_TYPE_DEFAULT then i_default_acl inode
      else ERR_PTR (- EINVAL))"

definition set_cached_acl :: "inode \<Rightarrow> int \<Rightarrow> posix_acl ptr \<Rightarrow> inode" where
  "set_cached_acl inode type acl =
     (let inode' = inode\<lparr>trace := trace inode @ [SET_CACHED_ACL type acl]\<rparr> in
        if type = ACL_TYPE_ACCESS then inode'\<lparr>i_acl := acl\<rparr>
        else if type = ACL_TYPE_DEFAULT then inode'\<lparr>i_default_acl := acl\<rparr>
        else inode')"

text \<open>
  Modelled from the spec: \<^verbatim>\<open>pram_xattr_get\<close> and \<^verbatim>\<open>pram_xattr_set\<close> are
  defined in \<^verbatim>\<open>xattr.c\<close>, which is not among the sources. The spec gives the
  contract of the attribute store: a read answers with the bytes, with not-found or with
  an error; a write of a value or of null (delete) answers ok or with an error, and
  changes nothing when it fails. A read returns the length of the value and the bytes
  it copies out, \<^verbatim>\<open>-ENODATA\<close> for not-found, the error otherwise.
\<close>

definition pram_xattr_get :: "inode \<Rightarrow> name_index \<Rightarrow> (int \<times> byte list) \<times> inode" where
  "pram_xattr_get inode name_index =
     (let inode' = inode\<lparr>trace := trace inode @ [XATTR_GET name_index]\<rparr> in
        case i_xattr inode name_index of
          NotFound \<Rightarrow> ((- ENODATA, []), inode')
        | Bytes v \<Rightarrow> ((int (length v), v), inode')
        | Error e \<Rightarrow> ((e, []), inode'))"

definition pram_xattr_set ::
  "inode \<Rightarrow> name_index \<Rightarrow> byte list option \<Rightarrow> nat \<Rightarrow> int \<times> inode" where
  "pram_xattr_set inode name_index value sz =
     (let stored = map_option (take sz) value;
          inode' = inode\<lparr>trace := trace inode @ [XATTR_SET name_index stored]\<rparr>
      in
        if xattr_set_error inode \<noteq> 0 then (xattr_set_error inode, inode')
        else
          (0, inode'\<lparr>i_xattr := (i_xattr inode)
                 (name_index := (case stored of None \<Rightarrow> NotFound | Some v \<Rightarrow> Bytes v))\<rparr>))"

subsection \<open>The store adapter\<close>

text \<open>
  Lines 175 to 186 of \<^verbatim>\<open>pram_get_acl\<close>: turn the answer of the store into the
  result and cache it unless it is an error. \<open>value\<close> holds the bytes of the block.
\<close>

definition pram_get_acl_result ::
  "env \<Rightarrow> inode \<Rightarrow> int \<Rightarrow> int \<Rightarrow> byte list \<Rightarrow> posix_acl ptr \<times> inode" where
  "pram_get_acl_result k inode type retval value =
     (let acl = (if retval > 0 then pram_acl_load k (Some (take (nat retval) value))
                 else if retval = - ENODATA \<or> retval = - ENOSYS then NULL
                 else ERR_PTR retval)
      in (acl, if \<not> IS_ERR acl then set_cached_acl inode type acl else inode))"

text \<open>
  \<^verbatim>\<open>pram_get_acl(inode, type)\<close>. The result \<open>None\<close> is \<^verbatim>\<open>BUG()\<close>. The first
  read asks for the length only; the second copies the value into the block that
  \<^verbatim>\<open>kmalloc\<close> returned.
\<close>

definition pram_get_acl :: "env \<Rightarrow> inode \<Rightarrow> int \<Rightarrow> (posix_acl ptr \<times> inode) option" where
  "pram_get_acl k inode type =
     (if \<not> opt_POSIX_ACL inode then Some (NULL, inode)
      else
        let acl = get_cached_acl inode type in
          if acl \<noteq> ACL_NOT_CACHED then Some (acl, inode)
          else if type \<noteq> ACL_TYPE_ACCESS \<and> type \<noteq> ACL_TYPE_DEFAULT then None
          else
            let name_index = (if type = ACL_TYPE_ACCESS then PRAM_XATTR_INDEX_POSIX_ACL_ACCESS
                              else PRAM_XATTR_INDEX_POSIX_ACL_DEFAULT);
                ((retval, _), inode1) = pram_xattr_get inode name_index
            in
              if retval > 0 then
                (case kmalloc k (nat retval) of
                   None \<Rightarrow> Some (ERR_PTR (- ENOMEM), inode1)
                 | Some blk \<Rightarrow>
                     let ((retval2, bs), inode2) = pram_xattr_get inode1 name_index
                     in Some (pram_get_acl_result k inode2 type retval2 (overlay bs blk)))
              else Some (pram_get_acl_result k inode1 type retval []))"

text \<open>
  Lines 227 to 238 of \<^verbatim>\<open>pram_set_acl\<close>: encode what is left of the request, hand it
  to the store, and update the cache when the store reports success.
\<close>

definition pram_set_acl_store ::
  "env \<Rightarrow> inode \<Rightarrow> int \<Rightarrow> name_index \<Rightarrow> posix_acl option \<Rightarrow> int \<times> inode" where
  "pram_set_acl_store k inode type name_index acl =
     (let (value, sz) = (case acl of None \<Rightarrow> (NULL, 0) | Some a \<Rightarrow> pram_acl_save k a) in
        if IS_ERR value then (PTR_ERR value, inode)
        else
          let (error, inode1) =
                pram_xattr_set inode name_index (case value of Ptr v \<Rightarrow> Some v | _ \<Rightarrow> None) sz
          in
            if error = 0
            then (error, set_cached_acl inode1 type (case acl of None \<Rightarrow> NULL | Some a \<Rightarrow> Ptr a))
            else (error, inode1))"

text \<open>
  \<^verbatim>\<open>pram_set_acl(inode, type, acl)\<close>; \<open>None\<close> is the null \<^verbatim>\<open>acl\<close>.
  \<^verbatim>\<open>posix_acl_equiv_mode(acl, &inode->i_mode)\<close> returns its verdict and the mode it
  leaves in the inode.
\<close>

definition pram_set_acl :: "env \<Rightarrow> inode \<Rightarrow> int \<Rightarrow> posix_acl option \<Rightarrow> int \<times> inode" where
  "pram_set_acl k inode type acl =
     (if S_ISLNK (i_mode inode) then (- EOPNOTSUPP, inode)
      else if \<not> opt_POSIX_ACL inode then (0, inode)
      else if type = ACL_TYPE_ACCESS then
        (case acl of
           None \<Rightarrow> pram_set_acl_store k inode type PRAM_XATTR_INDEX_POSIX_ACL_ACCESS acl
         | Some a \<Rightarrow>
             let (error, mode) = posix_acl_equiv_mode k a (i_mode inode);
                 inode1 = inode\<lparr>i_mode := mode\<rparr>
             in
               if error < 0 then (error, inode1)
               else
                 pram_set_acl_store k
                   (mark_inode_dirty (inode1\<lparr>i_ctime := CURRENT_TIME_SEC k\<rparr>))
                   type PRAM_XATTR_INDEX_POSIX_ACL_ACCESS
                   (if error = 0 then None else acl))
      else if type = ACL_TYPE_DEFAULT then
        (if \<not> S_ISDIR (i_mode inode) then ((if acl \<noteq> None then - EACCES else 0), inode)
         else pram_set_acl_store k inode type PRAM_XATTR_INDEX_POSIX_ACL_DEFAULT acl)
      else (- EINVAL, inode))"

subsection \<open>The attribute handler\<close>

text \<open>
  \<^verbatim>\<open>pram_xattr_set_acl(dentry, name, value, size, flags, type)\<close> on the inode of the
  dentry; \<open>value\<close> is \<open>None\<close> for the null pointer. \<^verbatim>\<open>posix_acl_from_xattr\<close> returns
  a null pointer, an ACL or an errno pointer.
\<close>

definition pram_xattr_set_acl ::
  "env \<Rightarrow> inode \<Rightarrow> string \<Rightarrow> byte list option \<Rightarrow> int \<Rightarrow> int \<times> inode" where
  "pram_xattr_set_acl k inode name value type =
     (if name \<noteq> [] then (- EINVAL, inode)
      else if \<not> opt_POSIX_ACL inode then (- EOPNOTSUPP, inode)
      else if \<not> inode_owner_or_capable k then (- EPERM, inode)
      else
        (case value of
           None \<Rightarrow> pram_set_acl k inode type None
         | Some v \<Rightarrow>
             (case posix_acl_from_xattr k v of
                Err e \<Rightarrow> (e, inode)
              | NULL \<Rightarrow> pram_set_acl k inode type None
              | Ptr acl \<Rightarrow>
                  let error = posix_acl_valid k acl in
                    if error \<noteq> 0 then (error, inode)
                    else pram_set_acl k inode type (Some acl))))"

subsection \<open>Malformed buffers, in the words of the format\<close>

text \<open>
  The three ways in which the records behind a valid header can be wrong: a record
  extends past the end of the buffer, a record has a tag outside the closed set, or bytes
  are left when the declared number of records has been read. \<open>first_fault n bs\<close> walks
  \<open>n\<close> records over \<open>bs\<close>, each as long as its tag says, and names the first fault it
  meets; \<open>None\<close> says that \<open>bs\<close> is exactly \<open>n\<close> well-formed records. The tag
  of a record is its first two bytes as the decoder reads them, high byte first.
\<close>

datatype acl_fault = Overrun | Unknown_tag | Trailing

definition record_size :: "16 word \<Rightarrow> nat option" where
  "record_size tag =
     (if tag = ACL_USER_OBJ \<or> tag = ACL_GROUP_OBJ \<or> tag = ACL_MASK \<or> tag = ACL_OTHER
      then Some sizeof_pram_acl_entry_short
      else if tag = ACL_USER \<or> tag = ACL_GROUP then Some sizeof_pram_acl_entry
      else None)"

fun first_fault :: "nat \<Rightarrow> byte list \<Rightarrow> acl_fault option" where
  "first_fault 0 bs = (if bs = [] then None else Some Trailing)"
| "first_fault (Suc n) bs =
     (if length bs < sizeof_pram_acl_entry_short then Some Overrun
      else
        (case record_size (get_be16 bs) of
           None \<Rightarrow> Some Unknown_tag
         | Some sz \<Rightarrow> if length bs < sz then Some Overrun else first_fault n (drop sz bs)))"

text \<open>The closed set of tags.\<close>

definition valid_tag :: "16 word \<Rightarrow> bool" where
  "valid_tag tag = (tag \<in> {ACL_USER_OBJ, ACL_GROUP_OBJ, ACL_USER, ACL_GROUP, ACL_MASK, ACL_OTHER})"

subsection \<open>A concrete environment\<close>

text \<open>
  Modelled from the spec: the two inline helpers of \<^verbatim>\<open>acl.h\<close>, which is not among
  the sources. The canonical encoding puts the object, mask and other entries first as
  short records and the named entries behind them as long records, so up to four records
  are counted as short and every further one as long; a size that fits no such
  combination gives a negative count.
\<close>

definition acl_count_spec :: "nat \<Rightarrow> int" where
  "acl_count_spec n =
     (let body = n - sizeof_pram_acl_header in
        if body < 4 * sizeof_pram_acl_entry_short
        then (if body mod sizeof_pram_acl_entry_short \<noteq> 0 then - 1
              else int (body div sizeof_pram_acl_entry_short))
        else (if (body - 4 * sizeof_pram_acl_entry_short) mod sizeof_pram_acl_entry \<noteq> 0 then - 1
              else int ((body - 4 * sizeof_pram_acl_entry_short) div sizeof_pram_acl_entry) + 4))"

definition acl_size_spec :: "nat \<Rightarrow> nat" where
  "acl_size_spec count =
     (if count \<le> 4 then sizeof_pram_acl_header + count * sizeof_pram_acl_entry_short
      else sizeof_pram_acl_header + 4 * sizeof_pram_acl_entry_short
           + (count - 4) * sizeof_pram_acl_entry)"

text \<open>
  \<^verbatim>\<open>posix_acl_equiv_mode\<close> as \<^verbatim>\<open>fs/posix_acl.c\<close> of Linux 3.12 defines it
  (\<^verbatim>\<open>S_IRWXO = 7\<close>, \<^verbatim>\<open>S_IRWXG = 070\<close>, \<^verbatim>\<open>S_IRWXUGO = 0777\<close>): the loop
  collects the mode and whether the ACL says more than a mode can. The general theorems
  hold for any function in its place; the concrete environment uses this one.
\<close>

fun equiv_mode_entries :: "posix_acl \<Rightarrow> 16 word \<Rightarrow> bool \<Rightarrow> (16 word \<times> bool) option" where
  "equiv_mode_entries [] mode not_equiv = Some (mode, not_equiv)"
| "equiv_mode_entries (pa # rest) mode not_equiv =
     (if e_tag pa = ACL_USER_OBJ
      then equiv_mode_entries rest (mode OR push_bit 6 (e_perm pa AND 7)) not_equiv
      else if e_tag pa = ACL_GROUP_OBJ
      then equiv_mode_entries rest (mode OR push_bit 3 (e_perm pa AND 7)) not_equiv
      else if e_tag pa = ACL_OTHER
      then equiv_mode_entries rest (mode OR (e_perm pa AND 7)) not_equiv
      else if e_tag pa = ACL_MASK
      then equiv_mode_entries rest ((mode AND NOT 56) OR push_bit 3 (e_perm pa AND 7)) True
      else if e_tag pa = ACL_USER \<or> e_tag pa = ACL_GROUP
      then equiv_mode_entries rest mode True
      else None)"

definition linux_posix_acl_equiv_mode :: "posix_acl \<Rightarrow> 16 word \<Rightarrow> int \<times> 16 word" where
  "linux_posix_acl_equiv_mode acl mode_p =
     (case equiv_mode_entries acl 0 False of
        None \<Rightarrow> (- EINVAL, mode_p)
      | Some (mode, not_equiv) \<Rightarrow> ((if not_equiv then 1 else 0), (mode_p AND NOT 511) OR mode))"

text \<open>
  The environment of the examples: version 1, allocations that succeed and return zeroed
  memory, no ACL in the caller's wire format, a caller who owns the inode.
\<close>

definition env0 :: env where
  "env0 = \<lparr>PRAM_ACL_VERSION = 1, pram_acl_count = acl_count_spec, pram_acl_size = acl_size_spec,
     acl_alloc_ok = (\<lambda>_. True), kmalloc_ok = (\<lambda>_. True), junk_entry = (\<lambda>_. \<lparr>e_tag = 0, e_perm = 0, e_id = 0\<rparr>),
     junk_byte = (\<lambda>_. 0), posix_acl_equiv_mode = linux_posix_acl_equiv_mode,
     posix_acl_from_xattr = (\<lambda>_. NULL), posix_acl_valid = (\<lambda>_. 0),
     inode_owner_or_capable = True, CURRENT_TIME_SEC = 1\<rparr>"

text \<open>
  A regular file of mode 0100664 on a file system mounted with ACLs, nothing cached,
  nothing stored, a store that accepts writes.
\<close>

definition inode0 :: inode where
  "inode0 = \<lparr>i_mode = 33204, i_ctime = 0, i_dirty = False, opt_POSIX_ACL = True,
     i_acl = ACL_NOT_CACHED, i_default_acl = ACL_NOT_CACHED, i_xattr = (\<lambda>_. NotFound),
     xattr_set_error = 0, trace = []\<rparr>"

definition ent :: "16 word \<Rightarrow> 16 word \<Rightarrow> 32 word \<Rightarrow> posix_acl_entry" where
  "ent t p i = \<lparr>e_tag = t, e_perm = p, e_id = i\<rparr>"

text \<open>
  Two ACLs for that file: one that says what the mode 0664 says, and one with a named
  user (uid 42) and a mask.
\<close>

definition acl_trivial :: posix_acl where
  "acl_trivial = [ent ACL_USER_OBJ 6 0, ent ACL_GROUP_OBJ 6 0, ent ACL_OTHER 4 0]"

definition acl_extended :: posix_acl where
  "acl_extended = [ent ACL_USER_OBJ 6 0, ent ACL_USER 6 42, ent ACL_GROUP_OBJ 4 0,
                   ent ACL_MASK 6 0, ent ACL_OTHER 4 0]"

text \<open>
  The file after the extended ACL has been set as its access ACL, with a store that from
  now on answers every write with \<^verbatim>\<open>-EIO\<close> (-5).
\<close>

definition inode_eio :: inode where
  "inode_eio = (snd (pram_set_acl env0 inode0 ACL_TYPE_ACCESS (Some acl_extended)))
                 \<lparr>xattr_set_error := - 5\<rparr>"

section \<open>The codec\<close>

subsection \<open>Byte order\<close>

lemma get_put_be32: "get_be32 (put_be32 x) = x"
  unfolding get_be32_def put_be32_def
  apply simp
  apply (rule bit_word_eqI)
  subgoal for n
    apply (simp add: bit_simps)
    apply (cases "n < 8"; cases "n < 16"; cases "n < 24"; simp add: not_less)
      apply auto
    done
  done

lemma put_get_be32: "put_be32 (get_be32 [a, b, c, d]) = [a, b, c, d]"
  unfolding get_be32_def put_be32_def
  apply simp
  apply (intro conjI; rule bit_word_eqI; simp add: bit_simps)
  apply (auto dest: bit_imp_le_length)
  done

lemma take_header: "4 \<le> length bs \<Longrightarrow> take 4 bs = [bs ! 0, bs ! 1, bs ! 2, bs ! 3]"
  by (auto simp: numeral_eq_Suc Suc_le_length_iff)

text \<open>
  The header test compares the four bytes in memory with the bytes of the converted
  constant; that is the comparison of the big-endian value with the constant.
\<close>

lemma version_check:
  assumes "4 \<le> length buf"
  shows "take 4 buf = put_be32 v \<longleftrightarrow> get_be32 buf = v"
proof
  assume "take 4 buf = put_be32 v"
  then have "get_be32 (take 4 buf) = v" by (simp add: get_put_be32)
  then show "get_be32 buf = v" using assms by (simp add: get_be32_def)
next
  assume g: "get_be32 buf = v"
  have "put_be32 (get_be32 (take 4 buf)) = take 4 buf"
    using assms by (simp add: take_header put_get_be32)
  moreover have "get_be32 (take 4 buf) = get_be32 buf"
    using assms by (simp add: get_be32_def)
  ultimately show "take 4 buf = put_be32 v" using g by simp
qed

subsection \<open>Rejected headers\<close>

text \<open>
  C2: a non-null buffer shorter than the header, and a buffer whose big-endian version
  tag is not the supported constant, make \<^verbatim>\<open>pram_acl_load\<close> return
  \<^verbatim>\<open>ERR_PTR(-EINVAL)\<close>; no ACL, whole or partial, is returned.
\<close>

theorem pram_acl_load_bad_header:
  "length buf < sizeof_pram_acl_header \<or> get_be32 buf \<noteq> PRAM_ACL_VERSION k \<Longrightarrow>
   pram_acl_load k (Some buf) = Err (- EINVAL)"
  by (auto simp: pram_acl_load_def ERR_PTR_def version_check)

text \<open>A buffer of three bytes, and a buffer of one short record under version 2.\<close>

theorem pram_acl_load_bad_header_witness:
  "length [0, 0, 0 :: byte] < sizeof_pram_acl_header
   \<and> pram_acl_load env0 (Some [0, 0, 0]) = Err (- EINVAL)
   \<and> get_be32 [0, 0, 0, 2, 0, 1, 0, 7] \<noteq> PRAM_ACL_VERSION env0
   \<and> pram_acl_load env0 (Some [0, 0, 0, 2, 0, 1, 0, 7]) = Err (- EINVAL)"
  using pram_acl_load_bad_header [of "[0, 0, 0]" env0]
        pram_acl_load_bad_header [of "[0, 0, 0, 2, 0, 1, 0, 7]" env0]
  by (simp add: env0_def get_be32_def)

subsection \<open>The decoding loop\<close>

lemma load_entries_length:
  "load_entries n i bs acl = Some (acl', rest) \<Longrightarrow> length acl' = length acl"
  by (induction n arbitrary: i bs acl) (auto simp: Let_def split: if_splits)

text \<open>
  The loop and the walk of \<open>first_fault\<close> agree: a fault makes the loop fail or leaves
  bytes unread, and without a fault the loop reads all of the buffer.
\<close>

lemma load_entries_fault:
  "first_fault n bs = Some f \<Longrightarrow>
   (case load_entries n i bs acl of None \<Rightarrow> True | Some (acl', rest) \<Rightarrow> rest \<noteq> [])"
  by (induction n arbitrary: i bs acl)
     (auto simp: Let_def record_size_def split: if_splits option.splits)

lemma load_entries_clean:
  "first_fault n bs = None \<Longrightarrow> \<exists>acl'. load_entries n i bs acl = Some (acl', [])"
  by (induction n arbitrary: i bs acl)
     (auto simp: Let_def record_size_def split: if_splits option.splits)

lemma posix_acl_alloc_length: "posix_acl_alloc k n = Some acl \<Longrightarrow> length acl = n"
  by (auto simp: posix_acl_alloc_def split: if_splits)

lemma pram_acl_load_PtrD:
  assumes "pram_acl_load k (Some buf) = Ptr acl'"
  shows "0 < pram_acl_count k (length buf) \<and>
         (\<exists>a. load_entries (nat (pram_acl_count k (length buf))) 0
                 (drop sizeof_pram_acl_header buf) a = Some (acl', []))"
  using assms
  by (auto simp: pram_acl_load_def Let_def ERR_PTR_def split: option.splits if_splits)

lemma pram_acl_load_Ptr_length:
  assumes "pram_acl_load k value = Ptr acl"
  shows "\<exists>buf. value = Some buf \<and> 0 < pram_acl_count k (length buf)
               \<and> length acl = nat (pram_acl_count k (length buf))"
  using assms
  by (auto simp: pram_acl_load_def ERR_PTR_def Let_def
           dest!: load_entries_length posix_acl_alloc_length
           split: option.splits if_splits)

text \<open>A buffer without a fault is decoded, when the ACL object can be allocated.\<close>

lemma pram_acl_load_clean:
  assumes "sizeof_pram_acl_header \<le> length buf"
      and "get_be32 buf = PRAM_ACL_VERSION k"
      and "0 < pram_acl_count k (length buf)"
      and "acl_alloc_ok k (nat (pram_acl_count k (length buf)))"
      and "first_fault (nat (pram_acl_count k (length buf))) (drop sizeof_pram_acl_header buf)
             = None"
  shows "\<exists>acl. pram_acl_load k (Some buf) = Ptr acl"
proof -
  let ?acl = "map (junk_entry k) [0..<nat (pram_acl_count k (length buf))]"
  from load_entries_clean [OF assms(5), of 0 ?acl] obtain acl' where
    "load_entries (nat (pram_acl_count k (length buf))) 0 (drop sizeof_pram_acl_header buf) ?acl
       = Some (acl', [])" by blast
  with assms(1-4) show ?thesis
    by (simp add: pram_acl_load_def posix_acl_alloc_def version_check)
qed

subsection \<open>Malformed records\<close>

text \<open>
  C3, as the code has it: for a buffer with a valid header in which a record extends past
  the end, or has a tag outside the closed set, or in which bytes are left behind the
  declared records, \<^verbatim>\<open>pram_acl_load\<close> returns no ACL: it returns
  \<^verbatim>\<open>ERR_PTR(-EINVAL)\<close>, except that a buffer which declares at least one entry
  is answered with \<^verbatim>\<open>ERR_PTR(-ENOMEM)\<close> when the ACL object cannot be allocated,
  before any record is looked at. The count helper of \<^verbatim>\<open>acl.h\<close> is taken to
  give 0 only for a buffer that is nothing but the header.
\<close>

theorem pram_acl_load_malformed:
  assumes "sizeof_pram_acl_header \<le> length buf"
      and "get_be32 buf = PRAM_ACL_VERSION k"
      and "pram_acl_count k (length buf) = 0 \<Longrightarrow> length buf = sizeof_pram_acl_header"
      and "first_fault (nat (pram_acl_count k (length buf))) (drop sizeof_pram_acl_header buf)
             = Some f"
  shows "pram_acl_load k (Some buf) =
           (if 0 < pram_acl_count k (length buf)
               \<and> \<not> acl_alloc_ok k (nat (pram_acl_count k (length buf)))
            then Err (- ENOMEM) else Err (- EINVAL))"
proof -
  let ?count = "pram_acl_count k (length buf)"
  let ?body = "drop sizeof_pram_acl_header buf"
  have hdr: "take sizeof_pram_acl_header buf = put_be32 (PRAM_ACL_VERSION k)"
    using assms(1,2) by (simp add: version_check)
  consider "?count < 0" | "?count = 0" | "0 < ?count" by linarith
  then show ?thesis
  proof cases
    case 1
    then show ?thesis using assms(1) hdr by (simp add: pram_acl_load_def ERR_PTR_def)
  next
    case 2
    with assms(3) have "?body = []" by simp
    with assms(4) 2 show ?thesis by simp
  next
    case 3
    show ?thesis
    proof (cases "acl_alloc_ok k (nat ?count)")
      case False
      with 3 assms(1) hdr show ?thesis
        by (simp add: pram_acl_load_def ERR_PTR_def posix_acl_alloc_def)
    next
      case True
      let ?acl = "map (junk_entry k) [0..<nat ?count]"
      from load_entries_fault [OF assms(4), of 0 ?acl]
      have "(case load_entries (nat ?count) 0 ?body ?acl of
               None \<Rightarrow> ERR_PTR (- EINVAL)
             | Some (acl', rest) \<Rightarrow> if rest \<noteq> [] then ERR_PTR (- EINVAL) else Ptr acl')
            = Err (- EINVAL)"
        by (auto simp: ERR_PTR_def split: option.splits)
      with 3 True assms(1) hdr show ?thesis
        by (simp add: pram_acl_load_def ERR_PTR_def posix_acl_alloc_def)
    qed
  qed
qed

text \<open>
  A record with the unknown tag 0x40; a named-user record cut after its fourth byte; six
  short records in a buffer whose size declares five.
\<close>

theorem pram_acl_load_malformed_witness:
  "first_fault (nat (pram_acl_count env0 8)) [0, 64, 0, 7] = Some Unknown_tag
   \<and> pram_acl_load env0 (Some [0, 0, 0, 1, 0, 64, 0, 7]) = Err (- EINVAL)
   \<and> first_fault (nat (pram_acl_count env0 8)) [0, 2, 0, 6] = Some Overrun
   \<and> pram_acl_load env0 (Some [0, 0, 0, 1, 0, 2, 0, 6]) = Err (- EINVAL)
   \<and> first_fault (nat (pram_acl_count env0 28))
        [0, 1, 0, 6, 0, 4, 0, 4, 0, 16, 0, 4, 0, 32, 0, 4, 0, 32, 0, 4, 0, 32, 0, 4]
       = Some Trailing
   \<and> pram_acl_load env0
        (Some [0, 0, 0, 1,
               0, 1, 0, 6, 0, 4, 0, 4, 0, 16, 0, 4, 0, 32, 0, 4, 0, 32, 0, 4, 0, 32, 0, 4])
       = Err (- EINVAL)"
proof -
  let ?b1 = "[0, 0, 0, 1, 0, 64, 0, 7] :: byte list"
  let ?b2 = "[0, 0, 0, 1, 0, 2, 0, 6] :: byte list"
  let ?b3 = "[0, 0, 0, 1,
               0, 1, 0, 6, 0, 4, 0, 4, 0, 16, 0, 4, 0, 32, 0, 4, 0, 32, 0, 4, 0, 32, 0, 4]
             :: byte list"
  have c8: "pram_acl_count env0 8 = 1" and c28: "pram_acl_count env0 28 = 5"
    by (simp_all add: env0_def acl_count_spec_def)
  have l1: "length ?b1 = 8" and l2: "length ?b2 = 8" and l3: "length ?b3 = 28"
    by simp_all
  have v: "PRAM_ACL_VERSION env0 = 1" and ok: "\<And>n. acl_alloc_ok env0 n"
    by (simp_all add: env0_def)
  have five: "nat 5 = Suc (Suc (Suc (Suc (Suc 0))))" by simp
  have f1: "first_fault (nat (pram_acl_count env0 8)) [0, 64, 0, 7] = Some Unknown_tag"
    by (simp add: c8 record_size_def get_be16_def)
  have f2: "first_fault (nat (pram_acl_count env0 8)) [0, 2, 0, 6] = Some Overrun"
    by (simp add: c8 record_size_def get_be16_def)
  have f3: "first_fault (nat (pram_acl_count env0 28))
        [0, 1, 0, 6, 0, 4, 0, 4, 0, 16, 0, 4, 0, 32, 0, 4, 0, 32, 0, 4, 0, 32, 0, 4]
       = Some Trailing"
    by (simp only: c28 five) (simp add: record_size_def get_be16_def)
  have "pram_acl_load env0 (Some ?b1) =
          (if 0 < pram_acl_count env0 (length ?b1)
              \<and> \<not> acl_alloc_ok env0 (nat (pram_acl_count env0 (length ?b1)))
           then Err (- ENOMEM) else Err (- EINVAL))"
  proof (rule pram_acl_load_malformed [where f = Unknown_tag])
    show "sizeof_pram_acl_header \<le> length ?b1" by simp
    show "get_be32 ?b1 = PRAM_ACL_VERSION env0" by (simp add: v get_be32_def)
    show "length ?b1 = sizeof_pram_acl_header" if "pram_acl_count env0 (length ?b1) = 0"
      using that unfolding l1 c8 by simp
    show "first_fault (nat (pram_acl_count env0 (length ?b1)))
            (drop sizeof_pram_acl_header ?b1) = Some Unknown_tag"
      unfolding l1 using f1 by simp
  qed
  then have r1: "pram_acl_load env0 (Some ?b1) = Err (- EINVAL)"
    unfolding l1 c8 by (simp add: ok)
  have "pram_acl_load env0 (Some ?b2) =
          (if 0 < pram_acl_count env0 (length ?b2)
              \<and> \<not> acl_alloc_ok env0 (nat (pram_acl_count env0 (length ?b2)))
           then Err (- ENOMEM) else Err (- EINVAL))"
  proof (rule pram_acl_load_malformed [where f = Overrun])
    show "sizeof_pram_acl_header \<le> length ?b2" by simp
    show "get_be32 ?b2 = PRAM_ACL_VERSION env0" by (simp add: v get_be32_def)
    show "length ?b2 = sizeof_pram_acl_header" if "pram_acl_count env0 (length ?b2) = 0"
      using that unfolding l2 c8 by simp
    show "first_fault (nat (pram_acl_count env0 (length ?b2)))
            (drop sizeof_pram_acl_header ?b2) = Some Overrun"
      unfolding l2 using f2 by simp
  qed
  then have r2: "pram_acl_load env0 (Some ?b2) = Err (- EINVAL)"
    unfolding l2 c8 by (simp add: ok)
  have "pram_acl_load env0 (Some ?b3) =
          (if 0 < pram_acl_count env0 (length ?b3)
              \<and> \<not> acl_alloc_ok env0 (nat (pram_acl_count env0 (length ?b3)))
           then Err (- ENOMEM) else Err (- EINVAL))"
  proof (rule pram_acl_load_malformed [where f = Trailing])
    show "sizeof_pram_acl_header \<le> length ?b3" by simp
    show "get_be32 ?b3 = PRAM_ACL_VERSION env0" by (simp add: v get_be32_def)
    show "length ?b3 = sizeof_pram_acl_header" if "pram_acl_count env0 (length ?b3) = 0"
      using that unfolding l3 c28 by simp
    show "first_fault (nat (pram_acl_count env0 (length ?b3)))
            (drop sizeof_pram_acl_header ?b3) = Some Trailing"
      unfolding l3 using f3 by simp
  qed
  then have r3: "pram_acl_load env0 (Some ?b3) = Err (- EINVAL)"
    unfolding l3 c28 by (simp add: ok)
  from f1 f2 f3 r1 r2 r3 show ?thesis by blast
qed

text \<open>
  The claim as stated promises \<^verbatim>\<open>-EINVAL\<close> for every such buffer. With an
  allocator that fails, the record with the unknown tag 0x40 is answered with
  \<^verbatim>\<open>-ENOMEM\<close>.
\<close>

theorem pram_acl_load_malformed_enomem:
  "get_be32 [0, 0, 0, 1, 0, 64, 0, 7] = PRAM_ACL_VERSION (env0\<lparr>acl_alloc_ok := \<lambda>_. False\<rparr>)
   \<and> first_fault (nat (pram_acl_count (env0\<lparr>acl_alloc_ok := \<lambda>_. False\<rparr>) 8)) [0, 64, 0, 7]
       = Some Unknown_tag
   \<and> pram_acl_load (env0\<lparr>acl_alloc_ok := \<lambda>_. False\<rparr>) (Some [0, 0, 0, 1, 0, 64, 0, 7])
       = Err (- ENOMEM)
   \<and> pram_acl_load (env0\<lparr>acl_alloc_ok := \<lambda>_. False\<rparr>) (Some [0, 0, 0, 1, 0, 64, 0, 7])
       \<noteq> Err (- EINVAL)"
  by (simp add: env0_def acl_count_spec_def record_size_def get_be16_def get_be32_def
        pram_acl_load_def put_be32_def posix_acl_alloc_def ERR_PTR_def)

subsection \<open>Absent results\<close>

text \<open>
  C4, as the code has it: \<^verbatim>\<open>pram_acl_load\<close> returns \<^verbatim>\<open>NULL\<close> for the null
  buffer, and for a buffer with a valid header whose derived entry count is 0; and an ACL
  it returns is never empty.
\<close>

theorem pram_acl_load_absent:
  "pram_acl_load k None = NULL
   \<and> (sizeof_pram_acl_header \<le> length buf \<and> get_be32 buf = PRAM_ACL_VERSION k
        \<and> pram_acl_count k (length buf) = 0 \<longrightarrow> pram_acl_load k (Some buf) = NULL)
   \<and> (pram_acl_load k value = Ptr acl \<longrightarrow> acl \<noteq> [])"
proof (intro conjI impI)
  show "pram_acl_load k None = NULL" by (simp add: pram_acl_load_def)
next
  assume "sizeof_pram_acl_header \<le> length buf \<and> get_be32 buf = PRAM_ACL_VERSION k
        \<and> pram_acl_count k (length buf) = 0"
  then show "pram_acl_load k (Some buf) = NULL"
    by (simp add: pram_acl_load_def version_check)
next
  assume "pram_acl_load k value = Ptr acl"
  from pram_acl_load_Ptr_length [OF this] show "acl \<noteq> []" by auto
qed

text \<open>The header alone, and the header with one owner record.\<close>

theorem pram_acl_load_absent_witness:
  "pram_acl_load env0 None = NULL
   \<and> sizeof_pram_acl_header \<le> length [0, 0, 0, 1 :: byte]
   \<and> get_be32 [0, 0, 0, 1] = PRAM_ACL_VERSION env0
   \<and> pram_acl_count env0 (length [0, 0, 0, 1 :: byte]) = 0
   \<and> pram_acl_load env0 (Some [0, 0, 0, 1]) = NULL
   \<and> pram_acl_load env0 (Some [0, 0, 0, 1, 0, 1, 0, 7]) = Ptr [ent ACL_USER_OBJ 7 0]
   \<and> [ent ACL_USER_OBJ 7 0] \<noteq> []"
  using pram_acl_load_absent [of env0 "[0, 0, 0, 1]" "Some [0, 0, 0, 1, 0, 1, 0, 7]"
          "[ent ACL_USER_OBJ 7 0]"]
  by (simp add: env0_def get_be32_def acl_count_spec_def pram_acl_load_def put_be32_def
        posix_acl_alloc_def get_be16_def ent_def)

text \<open>
  The claim as stated also promises \<^verbatim>\<open>NULL\<close> for an empty input. A buffer that is
  not null and has size 0 is shorter than the header, and is rejected.
\<close>

theorem pram_acl_load_empty_buffer:
  "pram_acl_load env0 (Some []) = Err (- EINVAL) \<and> pram_acl_load env0 (Some []) \<noteq> NULL"
  by (simp add: pram_acl_load_def ERR_PTR_def)

subsection \<open>Encoding and decoding again\<close>

lemma save_entries_Cons:
  assumes "save_entries (e # es) = Some bs"
  shows "valid_tag (e_tag e) \<and> (\<exists>rst. bs = put_le16 (e_tag e) @ put_le16 (e_perm e) @ rst)"
  using assms by (auto simp: valid_tag_def Let_def split: if_splits)

lemma load_entries_Suc_Some:
  assumes "load_entries (Suc m) i v a = Some r"
  shows "sizeof_pram_acl_entry_short \<le> length v \<and> valid_tag (get_be16 v)"
  using assms by (auto simp: valid_tag_def Let_def split: if_splits)

text \<open>
  A tag of the closed set, written with the low byte first and read with the high byte
  first, comes back shifted by eight bits, which is no tag of the closed set.
\<close>

lemma be16_of_le16_tag: "valid_tag t \<Longrightarrow> get_be16 (put_le16 t @ rst) = push_bit 8 t"
  by (auto simp: valid_tag_def get_be16_def put_le16_def)

lemma swapped_tag_invalid: "valid_tag t \<Longrightarrow> \<not> valid_tag (push_bit 8 t)"
  by (auto simp: valid_tag_def)

lemma get_be16_cong: "a ! 0 = b ! 0 \<Longrightarrow> a ! 1 = b ! 1 \<Longrightarrow> get_be16 a = get_be16 b"
  by (simp add: get_be16_def)

text \<open>
  So no ACL that \<^verbatim>\<open>pram_acl_save\<close> has encoded is decoded again by
  \<^verbatim>\<open>pram_acl_load\<close>, whatever the helpers of \<^verbatim>\<open>acl.h\<close> compute: the first
  record already fails the tag test.
\<close>

lemma pram_acl_load_save_never_decodes:
  assumes save: "pram_acl_save k acl = (Ptr blk, sz)" and ne: "acl \<noteq> []"
  shows "pram_acl_load k (Some (take sz blk)) \<noteq> Ptr acl'"
proof
  assume dec: "pram_acl_load k (Some (take sz blk)) = Ptr acl'"
  obtain e es where acl: "acl = e # es" using ne by (cases acl) auto
  from save obtain bs junk where bs: "save_entries acl = Some bs"
    and blk: "blk = overlay (put_be32 (PRAM_ACL_VERSION k) @ bs) junk"
    by (auto simp: pram_acl_save_def Let_def ERR_PTR_def split: option.splits)
  from save_entries_Cons [OF bs [unfolded acl]] obtain rst where
    vt: "valid_tag (e_tag e)" and bs': "bs = put_le16 (e_tag e) @ put_le16 (e_perm e) @ rst"
    by blast
  let ?buf = "take sz blk"
  let ?body = "drop sizeof_pram_acl_header ?buf"
  from pram_acl_load_PtrD [OF dec] obtain a where
    pos: "0 < pram_acl_count k (length ?buf)" and
    le0: "load_entries (nat (pram_acl_count k (length ?buf))) 0 ?body a = Some (acl', [])"
    by blast
  from pos obtain m where "nat (pram_acl_count k (length ?buf)) = Suc m"
    by (cases "nat (pram_acl_count k (length ?buf))") auto
  with le0 have le: "load_entries (Suc m) 0 ?body a = Some (acl', [])" by simp
  from load_entries_Suc_Some [OF le]
  have len: "4 \<le> length ?body" and v: "valid_tag (get_be16 ?body)"
    by auto
  have "get_be16 ?body = get_be16 (put_le16 (e_tag e) @ rst)"
  proof (rule get_be16_cong)
    show "?body ! 0 = (put_le16 (e_tag e) @ rst) ! 0"
      using len by (simp add: blk bs' overlay_def put_be32_def put_le16_def)
    show "?body ! 1 = (put_le16 (e_tag e) @ rst) ! 1"
      using len by (simp add: blk bs' overlay_def put_be32_def put_le16_def)
  qed
  with v vt show False by (simp add: be16_of_le16_tag swapped_tag_invalid)
qed

text \<open>
  C1 asks that decoding the output of the encoder gives the entries back. For the ACL
  with the single entry (owning user, rwx) the encoder writes the tag as the bytes 01 00
  and the decoder reads them as the tag 0x0100: the result is \<^verbatim>\<open>ERR_PTR(-EINVAL)\<close>,
  not the ACL.
\<close>

theorem pram_acl_roundtrip_user_obj:
  "pram_acl_save env0 [ent ACL_USER_OBJ 7 0] = (Ptr [0, 0, 0, 1, 1, 0, 7, 0, 0, 0, 0, 0], 8)
   \<and> pram_acl_load env0 (Some (take 8 [0, 0, 0, 1, 1, 0, 7, 0, 0, 0, 0, 0])) = Err (- EINVAL)"
  by (simp add: pram_acl_save_def pram_acl_load_def env0_def ent_def acl_size_spec_def
        acl_count_spec_def kmalloc_def posix_acl_alloc_def overlay_def put_be32_def put_le16_def
        get_be16_def ERR_PTR_def upt_rec)

section \<open>The store adapter\<close>

subsection \<open>Guards of \<^verbatim>\<open>pram_set_acl\<close>\<close>

text \<open>
  C7: on a symlink \<^verbatim>\<open>pram_set_acl\<close> returns \<^verbatim>\<open>-EOPNOTSUPP\<close> for every type
  and every ACL, and leaves the inode, the store and the cache as they were.
\<close>

theorem pram_set_acl_symlink:
  "S_ISLNK (i_mode inode) \<Longrightarrow> pram_set_acl k inode type acl = (- EOPNOTSUPP, inode)"
  by (simp add: pram_set_acl_def)

text \<open>A symlink of mode 0120777.\<close>

theorem pram_set_acl_symlink_witness:
  "S_ISLNK (i_mode (inode0\<lparr>i_mode := 41471\<rparr>))
   \<and> pram_set_acl env0 (inode0\<lparr>i_mode := 41471\<rparr>) ACL_TYPE_ACCESS (Some [ent ACL_USER_OBJ 7 0])
       = (- EOPNOTSUPP, inode0\<lparr>i_mode := 41471\<rparr>)"
  using pram_set_acl_symlink [of "inode0\<lparr>i_mode := 41471\<rparr>" env0 ACL_TYPE_ACCESS
          "Some [ent ACL_USER_OBJ 7 0]"]
  by (simp add: S_ISLNK_def)

text \<open>
  C8, as the code has it: with ACL support disabled, \<^verbatim>\<open>pram_set_acl\<close> on an inode
  that is not a symlink returns 0 for every type and every ACL and changes nothing.
\<close>

theorem pram_set_acl_disabled:
  "\<not> opt_POSIX_ACL inode \<Longrightarrow> \<not> S_ISLNK (i_mode inode) \<Longrightarrow>
   pram_set_acl k inode type acl = (0, inode)"
  by (simp add: pram_set_acl_def)

theorem pram_set_acl_disabled_witness:
  "\<not> opt_POSIX_ACL (inode0\<lparr>opt_POSIX_ACL := False\<rparr>)
   \<and> \<not> S_ISLNK (i_mode (inode0\<lparr>opt_POSIX_ACL := False\<rparr>))
   \<and> pram_set_acl env0 (inode0\<lparr>opt_POSIX_ACL := False\<rparr>) ACL_TYPE_ACCESS
        (Some [ent ACL_USER_OBJ 7 0]) = (0, inode0\<lparr>opt_POSIX_ACL := False\<rparr>)"
  using pram_set_acl_disabled [of "inode0\<lparr>opt_POSIX_ACL := False\<rparr>" env0 ACL_TYPE_ACCESS
          "Some [ent ACL_USER_OBJ 7 0]"]
  by (simp add: S_ISLNK_def inode0_def)

text \<open>
  The claim as stated covers every inode type. The symlink test comes first: on a symlink
  the disabled file system answers \<^verbatim>\<open>-EOPNOTSUPP\<close>.
\<close>

theorem pram_set_acl_disabled_symlink:
  "\<not> opt_POSIX_ACL (inode0\<lparr>i_mode := 41471, opt_POSIX_ACL := False\<rparr>)
   \<and> fst (pram_set_acl env0 (inode0\<lparr>i_mode := 41471, opt_POSIX_ACL := False\<rparr>)
             ACL_TYPE_ACCESS None) = - EOPNOTSUPP
   \<and> fst (pram_set_acl env0 (inode0\<lparr>i_mode := 41471, opt_POSIX_ACL := False\<rparr>)
             ACL_TYPE_ACCESS None) \<noteq> 0"
  by (simp add: pram_set_acl_def S_ISLNK_def)

text \<open>
  C6: a default ACL for an inode that is neither a symlink nor a directory, with ACL
  support enabled: \<^verbatim>\<open>-EACCES\<close> when an ACL is given, 0 when none is given, and no
  effect either way.
\<close>

theorem pram_set_acl_default_non_directory:
  "\<not> S_ISLNK (i_mode inode) \<Longrightarrow> \<not> S_ISDIR (i_mode inode) \<Longrightarrow> opt_POSIX_ACL inode \<Longrightarrow>
   pram_set_acl k inode ACL_TYPE_DEFAULT acl = ((if acl \<noteq> None then - EACCES else 0), inode)"
  by (simp add: pram_set_acl_def)

theorem pram_set_acl_default_non_directory_witness:
  "\<not> S_ISLNK (i_mode inode0) \<and> \<not> S_ISDIR (i_mode inode0) \<and> opt_POSIX_ACL inode0
   \<and> pram_set_acl env0 inode0 ACL_TYPE_DEFAULT (Some [ent ACL_USER_OBJ 7 0]) = (- EACCES, inode0)
   \<and> pram_set_acl env0 inode0 ACL_TYPE_DEFAULT None = (0, inode0)"
  using pram_set_acl_default_non_directory [of inode0 env0 "Some [ent ACL_USER_OBJ 7 0]"]
        pram_set_acl_default_non_directory [of inode0 env0 None]
  by (simp add: inode0_def S_ISLNK_def S_ISDIR_def)

subsection \<open>Reading an attribute that is not there\<close>

text \<open>
  C9: with ACL support enabled and nothing cached for the type, when the store reports
  not-found, \<^verbatim>\<open>pram_get_acl\<close> returns \<^verbatim>\<open>NULL\<close> after one call to the store and
  caches \<^verbatim>\<open>NULL\<close>; the next \<^verbatim>\<open>pram_get_acl\<close> for the same inode and type
  returns \<^verbatim>\<open>NULL\<close> and leaves the inode and the trace of calls as they are, so the
  store is not called again.
\<close>

theorem pram_get_acl_not_found:
  assumes "opt_POSIX_ACL inode"
      and "type = ACL_TYPE_ACCESS \<or> type = ACL_TYPE_DEFAULT"
      and "get_cached_acl inode type = ACL_NOT_CACHED"
      and "i_xattr inode (if type = ACL_TYPE_ACCESS then PRAM_XATTR_INDEX_POSIX_ACL_ACCESS
                          else PRAM_XATTR_INDEX_POSIX_ACL_DEFAULT) = NotFound"
  shows "\<exists>inode'. pram_get_acl k inode type = Some (NULL, inode')
           \<and> get_cached_acl inode' type = NULL
           \<and> trace inode' = trace inode
               @ [XATTR_GET (if type = ACL_TYPE_ACCESS then PRAM_XATTR_INDEX_POSIX_ACL_ACCESS
                             else PRAM_XATTR_INDEX_POSIX_ACL_DEFAULT),
                  SET_CACHED_ACL type NULL]
           \<and> pram_get_acl k inode' type = Some (NULL, inode')"
  using assms
  by (auto simp: pram_get_acl_def pram_get_acl_result_def pram_xattr_get_def Let_def
        get_cached_acl_def set_cached_acl_def)

theorem pram_get_acl_not_found_witness:
  "opt_POSIX_ACL inode0
   \<and> get_cached_acl inode0 ACL_TYPE_DEFAULT = ACL_NOT_CACHED
   \<and> i_xattr inode0 PRAM_XATTR_INDEX_POSIX_ACL_DEFAULT = NotFound
   \<and> (\<exists>inode'. pram_get_acl env0 inode0 ACL_TYPE_DEFAULT = Some (NULL, inode')
           \<and> get_cached_acl inode' ACL_TYPE_DEFAULT = NULL
           \<and> trace inode' = [XATTR_GET PRAM_XATTR_INDEX_POSIX_ACL_DEFAULT,
                             SET_CACHED_ACL ACL_TYPE_DEFAULT NULL]
           \<and> pram_get_acl env0 inode' ACL_TYPE_DEFAULT = Some (NULL, inode'))"
  using pram_get_acl_not_found [of inode0 ACL_TYPE_DEFAULT env0]
  by (simp add: inode0_def get_cached_acl_def)

subsection \<open>Setting an access ACL that a mode can express\<close>

lemma pram_set_acl_store_remove:
  "pram_set_acl_store k inode type name_index None =
     (xattr_set_error inode,
      (if xattr_set_error inode = 0
       then set_cached_acl
              (inode\<lparr>trace := trace inode @ [XATTR_SET name_index None],
                     i_xattr := (i_xattr inode)(name_index := NotFound)\<rparr>) type NULL
       else inode\<lparr>trace := trace inode @ [XATTR_SET name_index None]\<rparr>))"
  by (simp add: pram_set_acl_store_def pram_xattr_set_def Let_def)

text \<open>
  What the kernel's helper reports: an ACL of owner, group and other entries only is
  equivalent to a mode; an ACL with a mask entry never is.
\<close>

lemma equiv_mode_entries_plain:
  "\<forall>e \<in> set acl. e_tag e \<in> {ACL_USER_OBJ, ACL_GROUP_OBJ, ACL_OTHER} \<Longrightarrow>
   \<exists>m'. equiv_mode_entries acl m ne = Some (m', ne)"
  by (induction acl arbitrary: m) auto

lemma linux_posix_acl_equiv_mode_plain:
  assumes "\<forall>e \<in> set acl. e_tag e \<in> {ACL_USER_OBJ, ACL_GROUP_OBJ, ACL_OTHER}"
  shows "fst (linux_posix_acl_equiv_mode acl mode_p) = 0"
proof -
  from equiv_mode_entries_plain [OF assms, of 0 False]
  obtain m' where "equiv_mode_entries acl 0 False = Some (m', False)" by blast
  then show ?thesis by (simp add: linux_posix_acl_equiv_mode_def)
qed

lemma equiv_mode_entries_flag:
  "equiv_mode_entries acl m True = Some (m', ne) \<Longrightarrow> ne"
  by (induction acl arbitrary: m) (auto split: if_splits)

lemma equiv_mode_entries_mask:
  "equiv_mode_entries acl m ne = Some (m', ne') \<Longrightarrow> \<exists>e \<in> set acl. e_tag e = ACL_MASK \<Longrightarrow> ne'"
  by (induction acl arbitrary: m ne) (auto split: if_splits dest: equiv_mode_entries_flag)

lemma linux_posix_acl_equiv_mode_mask:
  assumes "\<exists>e \<in> set acl. e_tag e = ACL_MASK"
  shows "fst (linux_posix_acl_equiv_mode acl mode_p) \<noteq> 0"
  using assms
  by (auto simp: linux_posix_acl_equiv_mode_def split: option.splits
           dest: equiv_mode_entries_mask)

text \<open>
  C5, as the code has it: an access ACL that \<^verbatim>\<open>posix_acl_equiv_mode\<close> reports as
  equivalent to a mode (return value 0), set on an inode that is not a symlink with ACL
  support enabled. The mode is the one the helper computed, the change time is set and
  the inode is marked dirty before the store is called; the store is asked to remove the
  attribute (a null value) and its answer is the result. When the store accepts, the
  attribute is absent, \<^verbatim>\<open>NULL\<close> is cached, and the next \<^verbatim>\<open>pram_get_acl\<close> for
  the access ACL returns \<^verbatim>\<open>NULL\<close>. When the store refuses, attribute and cache stay
  as they were.
\<close>

theorem pram_set_acl_trivial_access:
  assumes "\<not> S_ISLNK (i_mode inode)" and "opt_POSIX_ACL inode"
      and "posix_acl_equiv_mode k acl (i_mode inode) = (0, mode)"
  shows "\<exists>inode'. pram_set_acl k inode ACL_TYPE_ACCESS (Some acl) = (xattr_set_error inode, inode')
           \<and> i_mode inode' = mode \<and> i_dirty inode' \<and> i_ctime inode' = CURRENT_TIME_SEC k
           \<and> trace inode' = trace inode
               @ [MARK_INODE_DIRTY, XATTR_SET PRAM_XATTR_INDEX_POSIX_ACL_ACCESS None]
               @ (if xattr_set_error inode = 0 then [SET_CACHED_ACL ACL_TYPE_ACCESS NULL] else [])
           \<and> (xattr_set_error inode = 0 \<longrightarrow>
                 i_xattr inode' PRAM_XATTR_INDEX_POSIX_ACL_ACCESS = NotFound
                 \<and> i_acl inode' = NULL
                 \<and> pram_get_acl k inode' ACL_TYPE_ACCESS = Some (NULL, inode'))
           \<and> (xattr_set_error inode \<noteq> 0 \<longrightarrow>
                 i_xattr inode' = i_xattr inode \<and> i_acl inode' = i_acl inode)"
  using assms
  by (auto simp: pram_set_acl_def pram_set_acl_store_remove mark_inode_dirty_def
        set_cached_acl_def pram_get_acl_def get_cached_acl_def Let_def)

lemma equiv_trivial: "posix_acl_equiv_mode env0 acl_trivial 33204 = (0, 33204)"
  by (simp add: env0_def linux_posix_acl_equiv_mode_def acl_trivial_def ent_def)

lemma inode_eio_eq:
  "inode_eio = \<lparr>i_mode = 33204, i_ctime = 1, i_dirty = True, opt_POSIX_ACL = True,
     i_acl = Ptr acl_extended, i_default_acl = ACL_NOT_CACHED,
     i_xattr = (\<lambda>_. NotFound)(PRAM_XATTR_INDEX_POSIX_ACL_ACCESS :=
        Bytes [0, 0, 0, 1, 1, 0, 6, 0, 2, 0, 6, 0, 0, 0, 0, 42, 4, 0, 4, 0,
               16, 0, 6, 0, 32, 0, 4, 0]),
     xattr_set_error = - 5,
     trace = [MARK_INODE_DIRTY,
              XATTR_SET PRAM_XATTR_INDEX_POSIX_ACL_ACCESS
                (Some [0, 0, 0, 1, 1, 0, 6, 0, 2, 0, 6, 0, 0, 0, 0, 42, 4, 0, 4, 0,
                       16, 0, 6, 0, 32, 0, 4, 0]),
              SET_CACHED_ACL ACL_TYPE_ACCESS (Ptr acl_extended)]\<rparr>"
  by (simp add: inode_eio_def inode0_def env0_def pram_set_acl_def S_ISLNK_def
        linux_posix_acl_equiv_mode_def acl_extended_def ent_def mark_inode_dirty_def
        pram_set_acl_store_def pram_acl_save_def kmalloc_def acl_size_spec_def overlay_def
        put_be32_def put_le16_def pram_xattr_set_def set_cached_acl_def Let_def)

theorem pram_set_acl_trivial_access_witness:
  "\<not> S_ISLNK (i_mode inode0) \<and> opt_POSIX_ACL inode0
   \<and> posix_acl_equiv_mode env0 acl_trivial (i_mode inode0) = (0, 33204)
   \<and> xattr_set_error inode0 = 0
   \<and> (\<exists>inode'. pram_set_acl env0 inode0 ACL_TYPE_ACCESS (Some acl_trivial) = (0, inode')
         \<and> i_mode inode' = 33204 \<and> i_dirty inode' \<and> i_ctime inode' = 1
         \<and> trace inode' = [MARK_INODE_DIRTY, XATTR_SET PRAM_XATTR_INDEX_POSIX_ACL_ACCESS None,
                           SET_CACHED_ACL ACL_TYPE_ACCESS NULL]
         \<and> i_xattr inode' PRAM_XATTR_INDEX_POSIX_ACL_ACCESS = NotFound
         \<and> i_acl inode' = NULL
         \<and> pram_get_acl env0 inode' ACL_TYPE_ACCESS = Some (NULL, inode'))
   \<and> \<not> S_ISLNK (i_mode inode_eio) \<and> opt_POSIX_ACL inode_eio
   \<and> posix_acl_equiv_mode env0 acl_trivial (i_mode inode_eio) = (0, 33204)
   \<and> xattr_set_error inode_eio \<noteq> 0
   \<and> (\<exists>inode'. pram_set_acl env0 inode_eio ACL_TYPE_ACCESS (Some acl_trivial) = (- 5, inode')
         \<and> i_mode inode' = 33204 \<and> i_dirty inode'
         \<and> trace inode' = trace inode_eio
              @ [MARK_INODE_DIRTY, XATTR_SET PRAM_XATTR_INDEX_POSIX_ACL_ACCESS None]
         \<and> i_xattr inode' = i_xattr inode_eio \<and> i_acl inode' = Ptr acl_extended)"
proof -
  have m: "i_mode inode0 = 33204" and o: "opt_POSIX_ACL inode0"
    and x: "xattr_set_error inode0 = 0" and t: "trace inode0 = []"
    by (simp_all add: inode0_def)
  have l: "\<not> S_ISLNK (i_mode inode0)" by (simp add: m S_ISLNK_def)
  have e: "posix_acl_equiv_mode env0 acl_trivial (i_mode inode0) = (0, 33204)"
    by (simp add: m equiv_trivial)
  have c: "CURRENT_TIME_SEC env0 = 1" by (simp add: env0_def)
  have m': "i_mode inode_eio = 33204" and o': "opt_POSIX_ACL inode_eio"
    and x': "xattr_set_error inode_eio = - 5" and a': "i_acl inode_eio = Ptr acl_extended"
    by (simp_all add: inode_eio_eq)
  have l': "\<not> S_ISLNK (i_mode inode_eio)" by (simp add: m' S_ISLNK_def)
  have e': "posix_acl_equiv_mode env0 acl_trivial (i_mode inode_eio) = (0, 33204)"
    by (simp add: m' equiv_trivial)
  from pram_set_acl_trivial_access [OF l o e]
  have 1: "\<exists>inode'. pram_set_acl env0 inode0 ACL_TYPE_ACCESS (Some acl_trivial) = (0, inode')
         \<and> i_mode inode' = 33204 \<and> i_dirty inode' \<and> i_ctime inode' = 1
         \<and> trace inode' = [MARK_INODE_DIRTY, XATTR_SET PRAM_XATTR_INDEX_POSIX_ACL_ACCESS None,
                           SET_CACHED_ACL ACL_TYPE_ACCESS NULL]
         \<and> i_xattr inode' PRAM_XATTR_INDEX_POSIX_ACL_ACCESS = NotFound
         \<and> i_acl inode' = NULL
         \<and> pram_get_acl env0 inode' ACL_TYPE_ACCESS = Some (NULL, inode')"
    by (simp add: x t c)
  from pram_set_acl_trivial_access [OF l' o' e']
  have 2: "\<exists>inode'. pram_set_acl env0 inode_eio ACL_TYPE_ACCESS (Some acl_trivial) = (- 5, inode')
         \<and> i_mode inode' = 33204 \<and> i_dirty inode'
         \<and> trace inode' = trace inode_eio
              @ [MARK_INODE_DIRTY, XATTR_SET PRAM_XATTR_INDEX_POSIX_ACL_ACCESS None]
         \<and> i_xattr inode' = i_xattr inode_eio \<and> i_acl inode' = Ptr acl_extended"
    by (auto simp: x' a')
  from 1 2 l o e x l' o' e' x' show ?thesis by simp
qed

text \<open>
  The claim as stated promises the absent attribute and the absent result of the next
  read for every such call. On \<open>inode_eio\<close> the extended ACL is stored and cached and the
  store refuses writes: setting the trivial ACL returns the error of the store, the
  attribute is still there, and the next read returns the extended ACL from the cache.
\<close>

theorem pram_set_acl_trivial_store_error:
  "\<not> S_ISLNK (i_mode inode_eio) \<and> opt_POSIX_ACL inode_eio
   \<and> posix_acl_equiv_mode env0 acl_trivial (i_mode inode_eio) = (0, i_mode inode_eio)
   \<and> fst (pram_set_acl env0 inode_eio ACL_TYPE_ACCESS (Some acl_trivial)) = - 5
   \<and> i_xattr (snd (pram_set_acl env0 inode_eio ACL_TYPE_ACCESS (Some acl_trivial)))
        PRAM_XATTR_INDEX_POSIX_ACL_ACCESS \<noteq> NotFound
   \<and> map_option fst
        (pram_get_acl env0 (snd (pram_set_acl env0 inode_eio ACL_TYPE_ACCESS (Some acl_trivial)))
           ACL_TYPE_ACCESS) = Some (Ptr acl_extended)"
  by (simp add: inode_eio_eq S_ISLNK_def equiv_trivial pram_set_acl_def
        pram_set_acl_store_remove mark_inode_dirty_def pram_get_acl_def get_cached_acl_def
        Let_def)

text \<open>
  With the kernel's helper, an ACL whose entries repeat the mode but include a mask is
  not equivalent to a mode: it is encoded, stored and cached.
\<close>

lemma pram_set_acl_with_mask_is_stored:
  "fst (pram_set_acl env0 inode0 ACL_TYPE_ACCESS
          (Some [ent ACL_USER_OBJ 6 0, ent ACL_GROUP_OBJ 6 0, ent ACL_MASK 6 0,
                 ent ACL_OTHER 4 0])) = 0
   \<and> i_xattr (snd (pram_set_acl env0 inode0 ACL_TYPE_ACCESS
          (Some [ent ACL_USER_OBJ 6 0, ent ACL_GROUP_OBJ 6 0, ent ACL_MASK 6 0,
                 ent ACL_OTHER 4 0]))) PRAM_XATTR_INDEX_POSIX_ACL_ACCESS
       = Bytes [0, 0, 0, 1, 1, 0, 6, 0, 4, 0, 6, 0, 16, 0, 6, 0, 32, 0, 4, 0]
   \<and> i_acl (snd (pram_set_acl env0 inode0 ACL_TYPE_ACCESS
          (Some [ent ACL_USER_OBJ 6 0, ent ACL_GROUP_OBJ 6 0, ent ACL_MASK 6 0,
                 ent ACL_OTHER 4 0])))
       = Ptr [ent ACL_USER_OBJ 6 0, ent ACL_GROUP_OBJ 6 0, ent ACL_MASK 6 0, ent ACL_OTHER 4 0]"
  by (simp add: inode0_def env0_def pram_set_acl_def S_ISLNK_def
        linux_posix_acl_equiv_mode_def ent_def mark_inode_dirty_def
        pram_set_acl_store_def pram_acl_save_def kmalloc_def acl_size_spec_def overlay_def
        put_be32_def put_le16_def pram_xattr_set_def set_cached_acl_def Let_def)

section \<open>The attribute handler\<close>

text \<open>
  C10, as the code has it: with ACL support disabled, \<^verbatim>\<open>pram_xattr_set_acl\<close> returns
  \<^verbatim>\<open>-EINVAL\<close> for an attribute name that is not empty and \<^verbatim>\<open>-EOPNOTSUPP\<close>
  for the empty name, whoever the caller is; it never returns \<^verbatim>\<open>-EPERM\<close>, and
  the inode is unchanged.
\<close>

theorem pram_xattr_set_acl_disabled:
  "\<not> opt_POSIX_ACL inode \<Longrightarrow>
   pram_xattr_set_acl k inode name value type
     = ((if name \<noteq> [] then - EINVAL else - EOPNOTSUPP), inode)
   \<and> fst (pram_xattr_set_acl k inode name value type) \<noteq> - EPERM"
  by (simp add: pram_xattr_set_acl_def)

text \<open>A caller without ownership or capability, and one with.\<close>

theorem pram_xattr_set_acl_disabled_witness:
  "\<not> opt_POSIX_ACL (inode0\<lparr>opt_POSIX_ACL := False\<rparr>)
   \<and> pram_xattr_set_acl (env0\<lparr>inode_owner_or_capable := False\<rparr>)
        (inode0\<lparr>opt_POSIX_ACL := False\<rparr>) [] None ACL_TYPE_ACCESS
       = (- EOPNOTSUPP, inode0\<lparr>opt_POSIX_ACL := False\<rparr>)
   \<and> pram_xattr_set_acl env0
        (inode0\<lparr>opt_POSIX_ACL := False\<rparr>) [] None ACL_TYPE_ACCESS
       = (- EOPNOTSUPP, inode0\<lparr>opt_POSIX_ACL := False\<rparr>)
   \<and> pram_xattr_set_acl (env0\<lparr>inode_owner_or_capable := False\<rparr>)
        (inode0\<lparr>opt_POSIX_ACL := False\<rparr>) ''user'' None ACL_TYPE_DEFAULT
       = (- EINVAL, inode0\<lparr>opt_POSIX_ACL := False\<rparr>)"
  using pram_xattr_set_acl_disabled [of "inode0\<lparr>opt_POSIX_ACL := False\<rparr>"
          "env0\<lparr>inode_owner_or_capable := False\<rparr>" "[]" None ACL_TYPE_ACCESS]
        pram_xattr_set_acl_disabled [of "inode0\<lparr>opt_POSIX_ACL := False\<rparr>"
          env0 "[]" None ACL_TYPE_ACCESS]
        pram_xattr_set_acl_disabled [of "inode0\<lparr>opt_POSIX_ACL := False\<rparr>"
          "env0\<lparr>inode_owner_or_capable := False\<rparr>" "''user''" None ACL_TYPE_DEFAULT]
  by simp

text \<open>
  The claim as stated promises \<^verbatim>\<open>-EOPNOTSUPP\<close> for every call. The name test comes
  first: a call with the name \<open>x\<close> is answered with \<^verbatim>\<open>-EINVAL\<close>.
\<close>

theorem pram_xattr_set_acl_disabled_named:
  "\<not> opt_POSIX_ACL (inode0\<lparr>opt_POSIX_ACL := False\<rparr>)
   \<and> fst (pram_xattr_set_acl env0 (inode0\<lparr>opt_POSIX_ACL := False\<rparr>) ''x'' None
             ACL_TYPE_ACCESS) = - EINVAL
   \<and> fst (pram_xattr_set_acl env0 (inode0\<lparr>opt_POSIX_ACL := False\<rparr>) ''x'' None
             ACL_TYPE_ACCESS) \<noteq> - EOPNOTSUPP"
  by (simp add: pram_xattr_set_acl_def)

end
